theory Spec2Isabelle
  imports Complex_Main "HOL-Library.AList" "HOL-Library.Sublist" "HOL-Library.Char_ord"
    "HOL-Library.List_Lexorder"
begin

section \<open>Python numbers\<close>

text \<open>
  The scores, deltas and thresholds of the two reporting scripts are Python numbers: the
  ints and floats that \<^verbatim>\<open>json.load\<close> yields (it reads \<^verbatim>\<open>NaN\<close>, \<^verbatim>\<open>Infinity\<close> and
  \<^verbatim>\<open>-Infinity\<close> too) and the int literals of the scripts. They are embedded as a finite
  real, one of the two infinities, or NaN. Arithmetic on finite values is exact here:
  rounding to the nearest double and overflow of a finite result are not part of the
  model, and the two zeros of a double are one value (they compare equal and Python
  raises on a division by either). The comparisons, the equality test and the handling
  of the infinities and of NaN are those of IEEE 754, as Python has them.
\<close>

datatype pyfloat = NaN | NInf | Fin real | PInf

datatype py_exn = ZeroDivisionError

text \<open>Python's \<^verbatim>\<open>==\<close>, \<^verbatim>\<open><=\<close>, \<^verbatim>\<open><\<close> and \<^verbatim>\<open>>\<close> on numbers: false as soon as one side is NaN.\<close>

definition py_eq :: "pyfloat \<Rightarrow> pyfloat \<Rightarrow> bool" where
  "py_eq x y = (x \<noteq> NaN \<and> x = y)"

fun py_le :: "pyfloat \<Rightarrow> pyfloat \<Rightarrow> bool" where
  "py_le NaN _ = False"
| "py_le _ NaN = False"
| "py_le NInf _ = True"
| "py_le _ PInf = True"
| "py_le (Fin a) (Fin b) = (a \<le> b)"
| "py_le _ _ = False"

fun py_lt :: "pyfloat \<Rightarrow> pyfloat \<Rightarrow> bool" where
  "py_lt NaN _ = False"
| "py_lt _ NaN = False"
| "py_lt (Fin a) (Fin b) = (a < b)"
| "py_lt PInf _ = False"
| "py_lt _ NInf = False"
| "py_lt _ _ = True"

definition py_gt :: "pyfloat \<Rightarrow> pyfloat \<Rightarrow> bool" where
  "py_gt x y = py_lt y x"

text \<open>Python's binary \<^verbatim>\<open>+\<close>, \<^verbatim>\<open>-\<close> and \<^verbatim>\<open>*\<close>: they never raise on these values.\<close>

fun py_neg :: "pyfloat \<Rightarrow> pyfloat" where
  "py_neg NaN = NaN"
| "py_neg NInf = PInf"
| "py_neg (Fin a) = Fin (- a)"
| "py_neg PInf = NInf"

fun py_add :: "pyfloat \<Rightarrow> pyfloat \<Rightarrow> pyfloat" where
  "py_add NaN _ = NaN"
| "py_add _ NaN = NaN"
| "py_add (Fin a) (Fin b) = Fin (a + b)"
| "py_add PInf NInf = NaN"
| "py_add NInf PInf = NaN"
| "py_add PInf _ = PInf"
| "py_add _ PInf = PInf"
| "py_add NInf _ = NInf"
| "py_add _ NInf = NInf"

definition py_sub :: "pyfloat \<Rightarrow> pyfloat \<Rightarrow> pyfloat" where
  "py_sub x y = py_add x (py_neg y)"

definition signed_inf :: "bool \<Rightarrow> pyfloat" where
  "signed_inf positive = (if positive then PInf else NInf)"

fun py_mul :: "pyfloat \<Rightarrow> pyfloat \<Rightarrow> pyfloat" where
  "py_mul NaN _ = NaN"
| "py_mul _ NaN = NaN"
| "py_mul (Fin a) (Fin b) = Fin (a * b)"
| "py_mul (Fin a) PInf = (if a = 0 then NaN else signed_inf (0 < a))"
| "py_mul (Fin a) NInf = (if a = 0 then NaN else signed_inf (a < 0))"
| "py_mul PInf (Fin b) = (if b = 0 then NaN else signed_inf (0 < b))"
| "py_mul NInf (Fin b) = (if b = 0 then NaN else signed_inf (b < 0))"
| "py_mul PInf PInf = PInf"
| "py_mul NInf NInf = PInf"
| "py_mul PInf NInf = NInf"
| "py_mul NInf PInf = NInf"

text \<open>
  Python's \<^verbatim>\<open>/\<close>: a zero divisor raises \<^verbatim>\<open>ZeroDivisionError\<close> whatever the dividend is
  (also for NaN and the infinities); every other division returns a value.
\<close>

fun py_div :: "pyfloat \<Rightarrow> pyfloat \<Rightarrow> py_exn + pyfloat" where
  "py_div x (Fin b) =
     (if b = 0 then Inl ZeroDivisionError
      else Inr (case x of
                  NaN \<Rightarrow> NaN
                | Fin a \<Rightarrow> Fin (a / b)
                | PInf \<Rightarrow> signed_inf (0 < b)
                | NInf \<Rightarrow> signed_inf (b < 0)))"
| "py_div x NaN = Inr NaN"
| "py_div (Fin a) _ = Inr (Fin 0)"
| "py_div _ _ = Inr NaN"

text \<open>Python's truth value of a number or \<^verbatim>\<open>None\<close>, and \<^verbatim>\<open>x or d\<close> on such a value.\<close>

fun py_truthy :: "pyfloat option \<Rightarrow> bool" where
  "py_truthy None = False"
| "py_truthy (Some x) = (\<not> py_eq x (Fin 0))"

definition py_or :: "pyfloat option \<Rightarrow> pyfloat \<Rightarrow> pyfloat" where
  "py_or x d = (case x of None \<Rightarrow> d | Some v \<Rightarrow> if py_truthy (Some v) then v else d)"

text \<open>
  The builtin \<^verbatim>\<open>max(a, b)\<close>: it keeps the first argument unless the second compares
  greater, so a NaN in first place stays and a NaN in second place is dropped.
\<close>

definition py_max :: "pyfloat \<Rightarrow> pyfloat \<Rightarrow> pyfloat" where
  "py_max a b = (if py_gt b a then b else a)"

text \<open>Sequencing of computations that may raise.\<close>

definition bind_exn :: "py_exn + 'a \<Rightarrow> ('a \<Rightarrow> py_exn + 'b) \<Rightarrow> py_exn + 'b" where
  "bind_exn r f = (case r of Inl e \<Rightarrow> Inl e | Inr v \<Rightarrow> f v)"

section \<open>generate-report.py: deltas and statuses\<close>

text \<open>
  \<^verbatim>\<open>get_diff(v2_score, v3_score)\<close>: the zero test comes first, so the division below it
  is never reached with a zero divisor.
\<close>

definition get_diff :: "pyfloat \<Rightarrow> pyfloat \<Rightarrow> py_exn + pyfloat" where
  "get_diff v2_score v3_score =
     (if py_eq v2_score (Fin 0) then Inr PInf
      else bind_exn (py_div (py_sub v3_score v2_score) v2_score)
             (\<lambda>q. Inr (py_mul q (Fin 100))))"

text \<open>\<^verbatim>\<open>get_status(diff, threshold=20)\<close>.\<close>

definition get_status :: "pyfloat \<Rightarrow> pyfloat \<Rightarrow> string" where
  "get_status diff threshold =
     (if py_le diff (Fin (- 5)) then ''IMPROVED''
      else if py_le diff threshold then ''OK''
      else if py_le diff (py_add threshold (Fin 10)) then ''WARN''
      else ''REGRESSION'')"

section \<open>Measurements and dictionaries\<close>

text \<open>
  A record of the benchmark tool's JSON output, as far as the scripts read it:
  \<^verbatim>\<open>entry['benchmark']\<close>, \<^verbatim>\<open>entry['primaryMetric']['score']\<close> and
  \<^verbatim>\<open>entry['primaryMetric']['scoreError']\<close>.
\<close>

record primaryMetric =
  pm_score :: pyfloat
  scoreError :: pyfloat

record entry =
  benchmark :: string
  primaryMetric :: primaryMetric

text \<open>The value \<^verbatim>\<open>{'score': ..., 'error': ...}\<close> stored for one benchmark name.\<close>

record measurement =
  score :: pyfloat
  error :: pyfloat

text \<open>
  A Python \<^verbatim>\<open>dict\<close> with string keys, in insertion order: \<^verbatim>\<open>d[k] = v\<close> is
  \<^const>\<open>AList.update\<close> (an existing key keeps its place, a new one goes to the end),
  \<^verbatim>\<open>k in d\<close> and \<^verbatim>\<open>d[k]\<close> go through \<^const>\<open>map_of\<close>, \<^verbatim>\<open>d.keys()\<close> is
  \<^term>\<open>map fst d\<close>.
\<close>

type_synonym 'v dict = "(string \<times> 'v) list"

text \<open>\<^verbatim>\<open>s.split(sep)\<close> for a one-character separator; the result is never empty.\<close>

fun split_on :: "char \<Rightarrow> string \<Rightarrow> string list" where
  "split_on sep [] = [[]]"
| "split_on sep (c # cs) =
     (if c = sep then [] # split_on sep cs
      else (case split_on sep cs of
              [] \<Rightarrow> [[c]]
            | w # ws \<Rightarrow> (c # w) # ws))"

text \<open>\<^verbatim>\<open>entry['benchmark'].split('.')[-1]\<close>.\<close>

definition benchmark_name :: "entry \<Rightarrow> string" where
  "benchmark_name e = last (split_on (CHR ''.'') (benchmark e))"

text \<open>
  \<^verbatim>\<open>parse_results\<close> of generate-report.py, from the decoded JSON list on: the loop
  stores one measurement per record under the last segment of its name.
\<close>

definition parse_results :: "entry list \<Rightarrow> measurement dict" where
  "parse_results data =
     foldl (\<lambda>results e.
              AList.update (benchmark_name e)
                \<lparr>score = pm_score (primaryMetric e), error = scoreError (primaryMetric e)\<rparr>
                results)
       [] data"

text \<open>\<^verbatim>\<open>parse_results\<close> of parse-results.py: the same loop with two local variables.\<close>

definition pr_parse_results :: "entry list \<Rightarrow> measurement dict" where
  "pr_parse_results data =
     foldl (\<lambda>results e.
              (let benchmark = benchmark_name e;
                   score = pm_score (primaryMetric e);
                   error = scoreError (primaryMetric e)
               in AList.update benchmark \<lparr>score = score, error = error\<rparr> results))
       [] data"

text \<open>
  The measurement that the loop stores for one record, and the loop body as a function of
  the dictionary and the record.
\<close>

definition stored :: "entry \<Rightarrow> measurement" where
  "stored e = \<lparr>score = pm_score (primaryMetric e), error = scoreError (primaryMetric e)\<rparr>"

definition store_entry :: "measurement dict \<Rightarrow> entry \<Rightarrow> measurement dict" where
  "store_entry results e = AList.update (benchmark_name e) (stored e) results"

section \<open>generate-report.py: one comparison row\<close>

text \<open>
  The table row that \<^verbatim>\<open>format_benchmark_row\<close> renders, cell by cell, before the
  numbers are formatted; \<^term>\<open>None\<close> is the cell \<^verbatim>\<open>N/A\<close>.
\<close>

record row =
  bench_cell :: string
  v2_cell :: "pyfloat option"
  v3_cell :: "pyfloat option"
  diff_cell :: "pyfloat option"
  status_cell :: string

definition format_benchmark_row ::
  "string \<Rightarrow> measurement dict \<Rightarrow> measurement dict \<Rightarrow> pyfloat \<Rightarrow> py_exn + row" where
  "format_benchmark_row bench v2_results v3_results threshold =
     (case (map_of v2_results bench, map_of v3_results bench) of
        (Some m2, Some m3) \<Rightarrow>
          (let v2 = score m2; v3 = score m3
           in bind_exn (get_diff v2 v3)
                (\<lambda>diff. Inr \<lparr>bench_cell = bench, v2_cell = Some v2, v3_cell = Some v3,
                               diff_cell = Some diff,
                               status_cell = get_status diff threshold\<rparr>))
      | (None, Some m3) \<Rightarrow>
          Inr \<lparr>bench_cell = bench, v2_cell = None, v3_cell = Some (score m3),
               diff_cell = None, status_cell = ''NEW''\<rparr>
      | (Some m2, None) \<Rightarrow>
          Inr \<lparr>bench_cell = bench, v2_cell = Some (score m2), v3_cell = None,
               diff_cell = None, status_cell = ''REMOVED''\<rparr>
      | (None, None) \<Rightarrow>
          Inr \<lparr>bench_cell = bench, v2_cell = None, v3_cell = None,
               diff_cell = None, status_cell = ''-''\<rparr>)"

section \<open>generate-report.py: the diffs of main\<close>

text \<open>
  The dictionary \<^verbatim>\<open>diffs\<close> of \<^verbatim>\<open>main\<close>: for each of the nine names, the delta when
  the name is in both result sets and \<^verbatim>\<open>None\<close> otherwise.
\<close>

definition diff_benchmarks :: "string list" where
  "diff_benchmarks =
     [''parseSmall'', ''parseMedium'', ''parseLarge'',
      ''buildGraphSmall'', ''buildGraphMedium'', ''buildGraphLarge'',
      ''classifySmall'', ''classifyMedium'', ''classifyLarge'']"

definition diff_step ::
  "measurement dict \<Rightarrow> measurement dict \<Rightarrow> pyfloat option dict \<Rightarrow> string
     \<Rightarrow> py_exn + pyfloat option dict" where
  "diff_step v2_results v3_results ds bench =
     (case (map_of v2_results bench, map_of v3_results bench) of
        (Some m2, Some m3) \<Rightarrow>
          bind_exn (get_diff (score m2) (score m3))
            (\<lambda>d. Inr (AList.update bench (Some d) ds))
      | _ \<Rightarrow> Inr (AList.update bench None ds))"

fun diff_loop ::
  "measurement dict \<Rightarrow> measurement dict \<Rightarrow> pyfloat option dict \<Rightarrow> string list
     \<Rightarrow> py_exn + pyfloat option dict" where
  "diff_loop v2_results v3_results ds [] = Inr ds"
| "diff_loop v2_results v3_results ds (bench # rest) =
     bind_exn (diff_step v2_results v3_results ds bench)
       (\<lambda>ds'. diff_loop v2_results v3_results ds' rest)"

definition main_diffs ::
  "measurement dict \<Rightarrow> measurement dict \<Rightarrow> py_exn + pyfloat option dict" where
  "main_diffs v2_results v3_results = diff_loop v2_results v3_results [] diff_benchmarks"

section \<open>generate-report.py: the time budget table\<close>








section \<open>generate-report.py: the regression thresholds table\<close>

text \<open>
  One row of the table \<^verbatim>\<open>Regression Thresholds\<close>: the threshold, the two deltas shown
  in the column \<^verbatim>\<open>Result\<close> (\<^term>\<open>None\<close> is \<^verbatim>\<open>N/A (new baseline)\<close>) and the status.
\<close>

record gate_row =
  g_size :: string
  g_threshold :: pyfloat
  g_result :: "(pyfloat \<times> pyfloat) option"
  g_status :: string

text \<open>
  \<^verbatim>\<open>diffs.get(classify_key, 0)\<close>: the stored value (a delta or \<^verbatim>\<open>None\<close>) when the key is
  there, the number 0 when it is not.
\<close>

definition diffs_get :: "pyfloat option dict \<Rightarrow> string \<Rightarrow> pyfloat \<Rightarrow> pyfloat option" where
  "diffs_get ds key dflt = (case map_of ds key of None \<Rightarrow> Some dflt | Some v \<Rightarrow> v)"

text \<open>
  The body of the loop over the sizes and their thresholds. The row is compared under the
  guard \<^verbatim>\<open>parse_key in diffs and diffs[parse_key] is not None\<close>, which reads the parse
  delta only; the classify delta is \<^verbatim>\<open>diffs.get(classify_key, 0) or 0\<close>.
\<close>

definition threshold_row :: "pyfloat option dict \<Rightarrow> string \<Rightarrow> pyfloat \<Rightarrow> gate_row" where
  "threshold_row ds sz threshold =
     (let parse_key = ''parse'' @ sz;
          classify_key = ''classify'' @ sz
      in case map_of ds parse_key of
           Some (Some parse_diff) \<Rightarrow>
             (let classify_diff = py_or (diffs_get ds classify_key (Fin 0)) (Fin 0);
                  max_diff = py_max parse_diff classify_diff;
                  status = (if py_le max_diff threshold then ''PASS'' else ''FAIL'')
              in \<lparr>g_size = sz, g_threshold = threshold,
                   g_result = Some (parse_diff, classify_diff), g_status = status\<rparr>)
         | _ \<Rightarrow>
             \<lparr>g_size = sz, g_threshold = threshold,
               g_result = None, g_status = ''BASELINE''\<rparr>)"




section \<open>parse-results.py: the plain-text comparison\<close>

text \<open>\<^verbatim>\<open>key.lower()\<close> on the letters A to Z, and the substring test \<^verbatim>\<open>'parse' in ...\<close>.\<close>

definition lower_char :: "char \<Rightarrow> char" where
  "lower_char c =
     (if CHR ''A'' \<le> c \<and> c \<le> CHR ''Z'' then char_of (of_char c + (32::nat)) else c)"

definition lower :: "string \<Rightarrow> string" where
  "lower s = map lower_char s"

definition category :: "string \<Rightarrow> string" where
  "category key =
     (if sublist ''parse'' (lower key) then ''Parsing''
      else if sublist ''graph'' (lower key) then ''Graph Building''
      else if sublist ''classify'' (lower key) then ''Classification''
      else if sublist ''analyze'' (lower key) then ''End-to-End''
      else ''Other'')"

text \<open>
  The loop that fills \<^verbatim>\<open>categories\<close>: a category gets an empty list on its first key,
  then every key is appended to the list of its category.
\<close>

definition categories_step :: "string list dict \<Rightarrow> string \<Rightarrow> string list dict" where
  "categories_step categories key =
     (let cat = category key;
          categories1 = (if map_of categories cat = None
                         then AList.update cat [] categories else categories)
      in case map_of categories1 cat of
           None \<Rightarrow> categories1
         | Some keys \<Rightarrow> AList.update cat (keys @ [key]) categories1)"

definition build_categories :: "measurement dict \<Rightarrow> string list dict" where
  "build_categories v2 = foldl categories_step [] (map fst v2)"

text \<open>The benchmark names filed under the categories, all lists together.\<close>

definition listed :: "string list dict \<Rightarrow> string set" where
  "listed categories = \<Union> (set ` snd ` set categories)"

text \<open>
  One printed line: the two scores, the delta and the status. The delta is computed with
  no test of the divisor, and the bands are the literals 10 and 20.
\<close>

record pr_line =
  l_bench :: string
  l_v2_score :: pyfloat
  l_v3_score :: pyfloat
  l_diff :: pyfloat
  l_status :: string

definition pr_status :: "pyfloat \<Rightarrow> string" where
  "pr_status diff =
     (if py_le diff (Fin (- 5)) then ''IMPROVED''
      else if py_le diff (Fin 10) then ''OK''
      else if py_le diff (Fin 20) then ''WARN''
      else ''REGRESSION'')"

definition pr_bench ::
  "measurement dict \<Rightarrow> measurement dict \<Rightarrow> string \<Rightarrow> py_exn + pr_line option" where
  "pr_bench v2 v3 bench =
     (case (map_of v2 bench, map_of v3 bench) of
        (Some m2, Some m3) \<Rightarrow>
          (let v2_score = score m2; v3_score = score m3
           in bind_exn (py_div (py_sub v3_score v2_score) v2_score) (\<lambda>q.
                (let diff = py_mul q (Fin 100)
                 in Inr (Some \<lparr>l_bench = bench, l_v2_score = v2_score,
                                 l_v3_score = v3_score, l_diff = diff,
                                 l_status = pr_status diff\<rparr>))))
      | _ \<Rightarrow> Inr None)"

text \<open>The inner loop over \<^verbatim>\<open>sorted(benchmarks)\<close> and the outer loop over the categories.\<close>

fun pr_benchmarks ::
  "measurement dict \<Rightarrow> measurement dict \<Rightarrow> string list \<Rightarrow> py_exn + pr_line list" where
  "pr_benchmarks v2 v3 [] = Inr []"
| "pr_benchmarks v2 v3 (bench # rest) =
     bind_exn (pr_bench v2 v3 bench) (\<lambda>l.
     bind_exn (pr_benchmarks v2 v3 rest) (\<lambda>ls.
       Inr (case l of None \<Rightarrow> ls | Some x \<Rightarrow> x # ls)))"

fun pr_categories ::
  "measurement dict \<Rightarrow> measurement dict \<Rightarrow> string list dict
     \<Rightarrow> py_exn + (string \<times> pr_line list) list" where
  "pr_categories v2 v3 [] = Inr []"
| "pr_categories v2 v3 ((cat, benchmarks) # rest) =
     bind_exn (pr_benchmarks v2 v3 (sort benchmarks)) (\<lambda>ls.
     bind_exn (pr_categories v2 v3 rest) (\<lambda>others.
       Inr ((cat, ls) # others)))"

definition pr_main ::
  "measurement dict \<Rightarrow> measurement dict \<Rightarrow> py_exn + (string \<times> pr_line list) list" where
  "pr_main v2 v3 = pr_categories v2 v3 (build_categories v2)"

section \<open>The components as the specification words them\<close>



text \<open>The deltas that are present: not absent and not NaN.\<close>

definition present_deltas :: "pyfloat option list \<Rightarrow> pyfloat list" where
  "present_deltas candidateDeltas = [d. Some d \<leftarrow> candidateDeltas, d \<noteq> NaN]"

text \<open>The maximum of a list of present deltas, and the verdict of section 4.5.\<close>

definition max_present :: "pyfloat list \<Rightarrow> pyfloat" where
  "max_present present = (case present of [] \<Rightarrow> NaN | d # rest \<Rightarrow> foldl py_max d rest)"

definition evaluate :: "pyfloat \<Rightarrow> pyfloat option list \<Rightarrow> string" where
  "evaluate thresholdPercent candidateDeltas =
     (let present = present_deltas candidateDeltas
      in if present = [] then ''BASELINE''
         else if py_gt (max_present present) thresholdPercent then ''FAIL''
         else ''PASS'')"

text \<open>
  The deltas of the two designated roles of a corpus, parse first, as they stand in the
  dictionary \<^verbatim>\<open>diffs\<close>: a key that is missing or maps to \<^verbatim>\<open>None\<close> is an absent delta.
\<close>

definition delta_of :: "pyfloat option dict \<Rightarrow> string \<Rightarrow> pyfloat option" where
  "delta_of ds key = (case map_of ds key of Some (Some d) \<Rightarrow> Some d | _ \<Rightarrow> None)"

definition designated :: "pyfloat option dict \<Rightarrow> string \<Rightarrow> pyfloat option list" where
  "designated ds sz = [delta_of ds (''parse'' @ sz), delta_of ds (''classify'' @ sz)]"

section \<open>Facts about the Python operations\<close>

lemma py_le_NaN_right [simp]: "py_le x NaN = False"
  by (cases x) simp_all

lemma py_lt_NaN_right [simp]: "py_lt x NaN = False"
  by (cases x) simp_all



section \<open>The status classifier\<close>

text \<open>
  C10. A NaN delta fails each of the three comparisons of \<^const>\<open>get_status\<close>, whatever the
  threshold is (finite, infinite or NaN), and so falls through to the last branch: the
  classifier reports it as a regression, never as incomparable.
\<close>

theorem get_status_NaN: "get_status NaN t = ''REGRESSION''"
  by (simp add: get_status_def)

text \<open>
  C7. A zero baseline makes \<^const>\<open>get_diff\<close> return positive infinity, and for every finite
  threshold the classifier maps that delta to the status REGRESSION: infinity is above
  \<open>-5\<close>, above the threshold and above the threshold plus ten.
\<close>

theorem zero_baseline_is_REGRESSION:
  "get_diff (Fin 0) c = Inr PInf \<and>
   bind_exn (get_diff (Fin 0) c) (\<lambda>d. Inr (get_status d (Fin t))) = Inr ''REGRESSION''"
  by (simp add: get_diff_def py_eq_def bind_exn_def get_status_def)

text \<open>
  C5. For a finite delta and any threshold, \<^const>\<open>get_status\<close> returns one of the four
  statuses, and which one is decided by the bands in their order: at most \<open>-5\<close> is
  IMPROVED; otherwise at most the threshold is OK; otherwise at most the threshold plus
  ten is WARN; otherwise REGRESSION. The four conditions exclude each other and one of
  them holds, so exactly one status applies.
\<close>

theorem get_status_bands:
  "(get_status (Fin x) t = ''IMPROVED'' \<longleftrightarrow> x \<le> - 5) \<and>
   (get_status (Fin x) t = ''OK'' \<longleftrightarrow> \<not> x \<le> - 5 \<and> py_le (Fin x) t) \<and>
   (get_status (Fin x) t = ''WARN'' \<longleftrightarrow>
      \<not> x \<le> - 5 \<and> \<not> py_le (Fin x) t \<and> py_le (Fin x) (py_add t (Fin 10))) \<and>
   (get_status (Fin x) t = ''REGRESSION'' \<longleftrightarrow>
      \<not> x \<le> - 5 \<and> \<not> py_le (Fin x) t \<and> \<not> py_le (Fin x) (py_add t (Fin 10))) \<and>
   get_status (Fin x) t \<in> {''IMPROVED'', ''OK'', ''WARN'', ''REGRESSION''} \<and>
   distinct [''IMPROVED'', ''OK'', ''WARN'', ''REGRESSION'']"
  by (simp add: get_status_def)


section \<open>The delta calculator\<close>





section \<open>The time budget table\<close>







section \<open>The comparison row\<close>




text \<open>
  The scenario of the specification: a baseline of 100 against a candidate of 90 is a delta
  of \<open>-10\<close> percent with the status IMPROVED, and a benchmark that only the candidate
  has is NEW.
\<close>

lemma scenario_rows:
  "format_benchmark_row ''parseSmall''
     [(''parseSmall'', \<lparr>score = Fin 100, error = Fin 0\<rparr>)]
     [(''parseSmall'', \<lparr>score = Fin 90, error = Fin 0\<rparr>),
      (''buildGraphSmall'', \<lparr>score = Fin 5, error = Fin 0\<rparr>)] (Fin 20)
   = Inr \<lparr>bench_cell = ''parseSmall'', v2_cell = Some (Fin 100), v3_cell = Some (Fin 90),
          diff_cell = Some (Fin (- 10)), status_cell = ''IMPROVED''\<rparr>"
  "format_benchmark_row ''buildGraphSmall''
     [(''parseSmall'', \<lparr>score = Fin 100, error = Fin 0\<rparr>)]
     [(''parseSmall'', \<lparr>score = Fin 90, error = Fin 0\<rparr>),
      (''buildGraphSmall'', \<lparr>score = Fin 5, error = Fin 0\<rparr>)] (Fin 20)
   = Inr \<lparr>bench_cell = ''buildGraphSmall'', v2_cell = None, v3_cell = Some (Fin 5),
          diff_cell = None, status_cell = ''NEW''\<rparr>"
  by (simp_all add: format_benchmark_row_def get_diff_def get_status_def py_eq_def py_sub_def
      bind_exn_def)


section \<open>The regression gate\<close>






lemma py_le_iff_not_gt: "a \<noteq> NaN \<Longrightarrow> b \<noteq> NaN \<Longrightarrow> py_le a b \<longleftrightarrow> \<not> py_gt a b"
  by (cases a; cases b) (auto simp: py_gt_def)

lemma py_max_not_NaN: "a \<noteq> NaN \<Longrightarrow> b \<noteq> NaN \<Longrightarrow> py_max a b \<noteq> NaN"
  by (simp add: py_max_def)

lemma py_max_zero_le:
  "p \<noteq> NaN \<Longrightarrow> py_le (Fin 0) t \<Longrightarrow> py_le (py_max p (Fin 0)) t \<longleftrightarrow> py_le p t"
  by (cases p; cases t) (auto simp: py_max_def py_gt_def)

lemma threshold_row_status:
  assumes "map_of ds (''parse'' @ sz) = Some (Some p)"
  shows "g_status (threshold_row ds sz t) =
           (if py_le (py_max p (py_or (diffs_get ds (''classify'' @ sz) (Fin 0)) (Fin 0))) t
            then ''PASS'' else ''FAIL'')"
  using assms by (simp add: threshold_row_def Let_def)

text \<open>
  C2, as amended. Whenever the parse delta of a corpus is present and is not NaN, and the
  threshold is a number not below 0 (as 20, 25 and 30 are), the status of the gate is the
  verdict that the specification words: FAIL if and only if the maximum of the present
  deltas is greater than the threshold, PASS otherwise; a maximum equal to the threshold
  gives PASS.
\<close>

theorem threshold_row_PASS_FAIL:
  assumes parse: "delta_of ds (''parse'' @ sz) = Some p"
    and p: "p \<noteq> NaN"
    and t: "py_le (Fin 0) t"
  shows "present_deltas (designated ds sz) \<noteq> [] \<and>
         g_status (threshold_row ds sz t) = evaluate t (designated ds sz) \<and>
         (g_status (threshold_row ds sz t) = ''FAIL'' \<longleftrightarrow>
            py_gt (max_present (present_deltas (designated ds sz))) t) \<and>
         (g_status (threshold_row ds sz t) = ''PASS'' \<longleftrightarrow>
            \<not> py_gt (max_present (present_deltas (designated ds sz))) t) \<and>
         (py_eq (max_present (present_deltas (designated ds sz))) t \<longrightarrow>
            g_status (threshold_row ds sz t) = ''PASS'')"
proof -
  from parse have mp: "map_of ds (''parse'' @ sz) = Some (Some p)"
    by (auto simp: delta_of_def split: option.splits)
  from t have tn: "t \<noteq> NaN" by (cases t) simp_all
  let ?present = "present_deltas (designated ds sz)"
  let ?m = "max_present ?present"
  have ne: "?present \<noteq> []"
    using parse p by (simp add: present_deltas_def designated_def)
  have key: "py_le (py_max p (py_or (diffs_get ds (''classify'' @ sz) (Fin 0)) (Fin 0))) t
             \<longleftrightarrow> \<not> py_gt ?m t" and mn: "?m \<noteq> NaN"
  proof -
    consider (absent) "delta_of ds (''classify'' @ sz) = None"
      | (nan) "delta_of ds (''classify'' @ sz) = Some NaN"
      | (num) c where "delta_of ds (''classify'' @ sz) = Some c" "c \<noteq> NaN"
      by (cases "delta_of ds (''classify'' @ sz)") auto
    then have "(py_le (py_max p (py_or (diffs_get ds (''classify'' @ sz) (Fin 0)) (Fin 0))) t
             \<longleftrightarrow> \<not> py_gt ?m t) \<and> ?m \<noteq> NaN"
    proof cases
      case absent
      then have c0: "py_or (diffs_get ds (''classify'' @ sz) (Fin 0)) (Fin 0) = Fin 0"
        by (auto simp: delta_of_def diffs_get_def py_or_def py_eq_def split: option.splits)
      from absent parse p have m: "?m = p"
        by (simp add: present_deltas_def designated_def max_present_def)
      from c0 m p tn t show ?thesis
        by (simp add: py_max_zero_le py_le_iff_not_gt)
    next
      case nan
      then have c0: "py_or (diffs_get ds (''classify'' @ sz) (Fin 0)) (Fin 0) = NaN"
        by (auto simp: delta_of_def diffs_get_def py_or_def py_eq_def split: option.splits)
      from nan parse p have m: "?m = p"
        by (simp add: present_deltas_def designated_def max_present_def)
      from c0 m p tn show ?thesis
        by (simp add: py_max_def py_gt_def py_le_iff_not_gt)
    next
      case num
      then have c0: "py_or (diffs_get ds (''classify'' @ sz) (Fin 0)) (Fin 0) = c"
        by (auto simp: delta_of_def diffs_get_def py_or_def py_eq_def split: option.splits)
      from num parse p have m: "?m = py_max p c"
        by (simp add: present_deltas_def designated_def max_present_def)
      from c0 m p tn num(2) show ?thesis
        by (simp add: py_max_not_NaN py_le_iff_not_gt)
    qed
    then show "py_le (py_max p (py_or (diffs_get ds (''classify'' @ sz) (Fin 0)) (Fin 0))) t
             \<longleftrightarrow> \<not> py_gt ?m t" and "?m \<noteq> NaN" by simp_all
  qed
  have st: "g_status (threshold_row ds sz t) = (if py_gt ?m t then ''FAIL'' else ''PASS'')"
    using threshold_row_status [OF mp] key by simp
  have ev: "evaluate t (designated ds sz) = (if py_gt ?m t then ''FAIL'' else ''PASS'')"
    using ne by (simp add: evaluate_def Let_def)
  have eq: "\<not> py_gt ?m t" if "py_eq ?m t"
    using that mn tn by (cases ?m; cases t) (simp_all add: py_eq_def py_gt_def)
  from ne st ev eq show ?thesis by simp
qed

theorem threshold_row_PASS_FAIL_witness:
  "delta_of [(''parseSmall'', Some (Fin 20)), (''classifySmall'', None)] (''parse'' @ ''Small'')
     = Some (Fin 20) \<and>
   Fin 20 \<noteq> NaN \<and> py_le (Fin 0) (Fin 20) \<and>
   py_eq (max_present (present_deltas (designated
       [(''parseSmall'', Some (Fin 20)), (''classifySmall'', None)] ''Small''))) (Fin 20) \<and>
   g_status (threshold_row [(''parseSmall'', Some (Fin 20)), (''classifySmall'', None)]
       ''Small'' (Fin 20)) = ''PASS'' \<and>
   evaluate (Fin 20) (designated [(''parseSmall'', Some (Fin 20)), (''classifySmall'', None)]
       ''Small'') = ''PASS''"
proof -
  let ?ds = "[(''parseSmall'', Some (Fin 20)), (''classifySmall'', None)]"
  have h1: "delta_of ?ds (''parse'' @ ''Small'') = Some (Fin 20)"
    by (simp add: delta_of_def)
  have h2: "Fin 20 \<noteq> NaN" by simp
  have h3: "py_le (Fin 0) (Fin 20)" by simp
  have m: "py_eq (max_present (present_deltas (designated ?ds ''Small''))) (Fin 20)"
    by (simp add: max_present_def present_deltas_def designated_def delta_of_def py_eq_def)
  note gate = threshold_row_PASS_FAIL [OF h1 h2 h3]
  have same: "g_status (threshold_row ?ds ''Small'' (Fin 20)) = evaluate (Fin 20) (designated ?ds ''Small'')"
    by (rule gate [THEN conjunct2, THEN conjunct1])
  have pass: "g_status (threshold_row ?ds ''Small'' (Fin 20)) = ''PASS''"
    by (rule gate [THEN conjunct2, THEN conjunct2, THEN conjunct2, THEN conjunct2, THEN mp, OF m])
  from same pass have spec: "evaluate (Fin 20) (designated ?ds ''Small'') = ''PASS''"
    by simp
  from h1 h2 h3 m pass spec show ?thesis
    by (intro conjI)
qed

text \<open>
  The examples of the specification: deltas 15 and 5 pass a threshold of 20, deltas 25 and
  5 fail it, two absent deltas give BASELINE, and a parse delta of exactly 20 passes.
\<close>

lemma gate_examples:
  "g_status (threshold_row [(''parseSmall'', Some (Fin 15)), (''classifySmall'', Some (Fin 5))]
     ''Small'' (Fin 20)) = ''PASS''"
  "g_status (threshold_row [(''parseSmall'', Some (Fin 25)), (''classifySmall'', Some (Fin 5))]
     ''Small'' (Fin 20)) = ''FAIL''"
  "g_status (threshold_row [(''parseSmall'', None), (''classifySmall'', None)]
     ''Small'' (Fin 20)) = ''BASELINE''"
  "g_status (threshold_row [(''parseSmall'', Some (Fin 20)), (''classifySmall'', None)]
     ''Small'' (Fin 20)) = ''PASS''"
  by (simp_all add: threshold_row_def diffs_get_def py_or_def py_eq_def py_max_def py_gt_def)

text \<open>
  C2 as stated fails when the parse delta is absent and the classify delta is present:
  the only present delta of the large corpus, 50 percent, is greater than the threshold
  30, so the verdict should be FAIL, and the row is BASELINE.
\<close>

theorem gate_FAIL_counterexample:
  "bind_exn (main_diffs [(''classifyLarge'', \<lparr>score = Fin 2, error = Fin 0\<rparr>)]
                        [(''parseLarge'', \<lparr>score = Fin 7, error = Fin 0\<rparr>),
                         (''classifyLarge'', \<lparr>score = Fin 3, error = Fin 0\<rparr>)])
      (\<lambda>ds. Inr (present_deltas (designated ds ''Large''),
                  evaluate (Fin 30) (designated ds ''Large''),
                  g_status (threshold_row ds ''Large'' (Fin 30))))
   = Inr ([Fin 50], ''FAIL'', ''BASELINE'') \<and>
   py_gt (Fin 50) (Fin 30)"
  by (simp add: main_diffs_def diff_benchmarks_def diff_step_def bind_exn_def get_diff_def
      py_eq_def py_sub_def present_deltas_def designated_def delta_of_def threshold_row_def
      evaluate_def max_present_def py_gt_def)

section \<open>Parsing the records\<close>

lemma parse_results_foldl: "parse_results data = foldl store_entry [] data"
proof -
  have "store_entry =
      (\<lambda>results e. AList.update (benchmark_name e)
         \<lparr>score = pm_score (primaryMetric e), error = scoreError (primaryMetric e)\<rparr> results)"
    by (intro ext) (simp add: store_entry_def stored_def)
  then show ?thesis by (simp add: parse_results_def)
qed

lemma pr_parse_results_eq: "pr_parse_results data = parse_results data"
  by (simp add: pr_parse_results_def parse_results_def Let_def)

lemma map_of_store_loop:
  "map_of (foldl store_entry acc es) k =
     (if \<exists>e \<in> set es. benchmark_name e = k
      then Some (stored (last (filter (\<lambda>e. benchmark_name e = k) es)))
      else map_of acc k)"
proof (induction es rule: rev_induct)
  case Nil
  show ?case by simp
next
  case (snoc e es)
  show ?case
  proof (cases "benchmark_name e = k")
    case True
    then show ?thesis by (simp add: store_entry_def update_conv')
  next
    case False
    with snoc show ?thesis by (auto simp: store_entry_def update_conv')
  qed
qed

lemma keys_store_loop:
  "fst ` set (foldl store_entry acc es) = fst ` set acc \<union> benchmark_name ` set es"
  by (induction es arbitrary: acc) (auto simp: store_entry_def dom_update)

lemma distinct_store_loop:
  "distinct (map fst acc) \<Longrightarrow> distinct (map fst (foldl store_entry acc es))"
  by (induction es arbitrary: acc) (simp_all add: store_entry_def distinct_update)

lemma length_parse_results:
  "length (parse_results data) = card (benchmark_name ` set data)"
proof -
  have d: "distinct (map fst (parse_results data))"
    by (simp add: parse_results_foldl distinct_store_loop)
  have "length (parse_results data) = length (map fst (parse_results data))" by simp
  also have "\<dots> = card (set (map fst (parse_results data)))"
    using d by (simp only: distinct_card)
  also have "\<dots> = card (benchmark_name ` set data)"
    by (simp add: parse_results_foldl keys_store_loop)
  finally show ?thesis .
qed

lemma distinct_filter_eq_one:
  "distinct xs \<Longrightarrow> x \<in> set xs \<Longrightarrow> length (filter (\<lambda>k. k = x) xs) = 1"
proof (induction xs)
  case Nil
  then show ?case by simp
next
  case (Cons y ys)
  show ?case
  proof (cases "y = x")
    case True
    with Cons.prems have "x \<notin> set ys" by simp
    then have "filter (\<lambda>k. k = x) ys = []" by (auto simp: filter_empty_conv)
    with True show ?thesis by simp
  next
    case False
    with Cons show ?thesis by simp
  qed
qed

lemma last_filter_nth:
  assumes "j < length xs" "P (xs ! j)" "\<forall>l. j < l \<and> l < length xs \<longrightarrow> \<not> P (xs ! l)"
  shows "last (filter P xs) = xs ! j"
proof -
  have split: "xs = take j xs @ [xs ! j] @ drop (Suc j) xs"
    using assms(1) by (simp add: id_take_nth_drop [symmetric])
  have "\<not> P y" if "y \<in> set (drop (Suc j) xs)" for y
  proof -
    from that obtain l where "l < length (drop (Suc j) xs)" "y = drop (Suc j) xs ! l"
      by (auto simp: in_set_conv_nth)
    then have "y = xs ! (Suc j + l)" "Suc j + l < length xs" by auto
    with assms(3) show ?thesis by auto
  qed
  then have "filter P (drop (Suc j) xs) = []" by (simp add: filter_empty_conv)
  moreover have "filter P xs = filter P (take j xs @ [xs ! j] @ drop (Suc j) xs)"
    by (rule arg_cong [where f = "filter P", OF split])
  ultimately have "filter P xs = filter P (take j xs) @ [xs ! j]"
    using assms(2) by simp
  then show ?thesis by simp
qed

text \<open>
  C9. When two records of the input have names with the same last dot-separated segment,
  the dictionary that \<^const>\<open>parse_results\<close> returns has exactly one entry under that
  segment, and it holds the score and the error of the last record with that segment:
  of the later of the two when no record after it shares the segment. The earlier
  measurement is gone, and the dictionary has fewer entries than the input has records.
  The function of parse-results.py returns the same dictionary.
\<close>

theorem parse_results_later_record_wins:
  assumes ij: "i < j" and j: "j < length data"
    and same: "benchmark_name (data ! i) = benchmark_name (data ! j)"
  shows "map_of (parse_results data) (benchmark_name (data ! j)) =
           Some (stored (last (filter (\<lambda>e. benchmark_name e = benchmark_name (data ! j)) data))) \<and>
         ((\<forall>l. j < l \<and> l < length data \<longrightarrow> benchmark_name (data ! l) \<noteq> benchmark_name (data ! j))
            \<longrightarrow> map_of (parse_results data) (benchmark_name (data ! j)) = Some (stored (data ! j))) \<and>
         length (filter (\<lambda>(k, m). k = benchmark_name (data ! j)) (parse_results data)) = 1 \<and>
         length (parse_results data) < length data \<and>
         pr_parse_results data = parse_results data"
proof -
  let ?k = "benchmark_name (data ! j)"
  from j have mem: "data ! j \<in> set data" by simp
  then have ex: "\<exists>e \<in> set data. benchmark_name e = ?k" by blast
  then have first: "map_of (parse_results data) ?k =
      Some (stored (last (filter (\<lambda>e. benchmark_name e = ?k) data)))"
    by (simp add: parse_results_foldl map_of_store_loop)
  have second: "map_of (parse_results data) ?k = Some (stored (data ! j))"
    if "\<forall>l. j < l \<and> l < length data \<longrightarrow> benchmark_name (data ! l) \<noteq> ?k"
  proof -
    have "last (filter (\<lambda>e. benchmark_name e = ?k) data) = data ! j"
      using j that by (intro last_filter_nth) auto
    with first show ?thesis by simp
  qed
  have d: "distinct (map fst (parse_results data))"
    by (simp add: parse_results_foldl distinct_store_loop)
  have "?k \<in> fst ` set (parse_results data)"
    using mem by (simp add: parse_results_foldl keys_store_loop)
  then have "?k \<in> set (map fst (parse_results data))" by simp
  with d have "length (filter (\<lambda>k. k = ?k) (map fst (parse_results data))) = 1"
    by (rule distinct_filter_eq_one)
  moreover have "length (filter (\<lambda>(k, m). k = ?k) (parse_results data)) =
      length (filter (\<lambda>k. k = ?k) (map fst (parse_results data)))"
    by (simp add: filter_map comp_def case_prod_unfold)
  ultimately have third: "length (filter (\<lambda>(k, m). k = ?k) (parse_results data)) = 1"
    by simp
  have "\<not> distinct (map benchmark_name data)"
  proof
    assume "distinct (map benchmark_name data)"
    moreover from ij j have "i < length (map benchmark_name data)" "j < length (map benchmark_name data)"
      by simp_all
    moreover from ij j same have "map benchmark_name data ! i = map benchmark_name data ! j"
      by simp
    ultimately have "i = j" by (simp only: nth_eq_iff_index_eq)
    with ij show False by simp
  qed
  then have "card (set (map benchmark_name data)) \<noteq> length (map benchmark_name data)"
    using card_distinct by blast
  moreover have "card (set (map benchmark_name data)) \<le> length (map benchmark_name data)"
    by (rule card_length)
  ultimately have fourth: "length (parse_results data) < length data"
    by (simp add: length_parse_results)
  from first second third fourth pr_parse_results_eq show ?thesis by blast
qed

theorem parse_results_later_record_wins_witness:
  "(0::nat) < 2 \<and>
   (2::nat) < length [\<lparr>benchmark = ''a.b.parseSmall'', primaryMetric = \<lparr>pm_score = Fin 1, scoreError = Fin 2\<rparr>\<rparr>,
                      \<lparr>benchmark = ''x'', primaryMetric = \<lparr>pm_score = Fin 5, scoreError = Fin 6\<rparr>\<rparr>,
                      \<lparr>benchmark = ''c.parseSmall'', primaryMetric = \<lparr>pm_score = Fin 3, scoreError = Fin 4\<rparr>\<rparr>,
                      \<lparr>benchmark = ''y.z'', primaryMetric = \<lparr>pm_score = Fin 7, scoreError = Fin 8\<rparr>\<rparr>] \<and>
   benchmark_name \<lparr>benchmark = ''a.b.parseSmall'', primaryMetric = \<lparr>pm_score = Fin 1, scoreError = Fin 2\<rparr>\<rparr>
     = benchmark_name \<lparr>benchmark = ''c.parseSmall'', primaryMetric = \<lparr>pm_score = Fin 3, scoreError = Fin 4\<rparr>\<rparr> \<and>
   map_of (parse_results
       [\<lparr>benchmark = ''a.b.parseSmall'', primaryMetric = \<lparr>pm_score = Fin 1, scoreError = Fin 2\<rparr>\<rparr>,
        \<lparr>benchmark = ''x'', primaryMetric = \<lparr>pm_score = Fin 5, scoreError = Fin 6\<rparr>\<rparr>,
        \<lparr>benchmark = ''c.parseSmall'', primaryMetric = \<lparr>pm_score = Fin 3, scoreError = Fin 4\<rparr>\<rparr>,
        \<lparr>benchmark = ''y.z'', primaryMetric = \<lparr>pm_score = Fin 7, scoreError = Fin 8\<rparr>\<rparr>])
     ''parseSmall'' = Some \<lparr>score = Fin 3, error = Fin 4\<rparr> \<and>
   length (parse_results
       [\<lparr>benchmark = ''a.b.parseSmall'', primaryMetric = \<lparr>pm_score = Fin 1, scoreError = Fin 2\<rparr>\<rparr>,
        \<lparr>benchmark = ''x'', primaryMetric = \<lparr>pm_score = Fin 5, scoreError = Fin 6\<rparr>\<rparr>,
        \<lparr>benchmark = ''c.parseSmall'', primaryMetric = \<lparr>pm_score = Fin 3, scoreError = Fin 4\<rparr>\<rparr>,
        \<lparr>benchmark = ''y.z'', primaryMetric = \<lparr>pm_score = Fin 7, scoreError = Fin 8\<rparr>\<rparr>]) < 4"
proof -
  let ?e0 = "\<lparr>benchmark = ''a.b.parseSmall'', primaryMetric = \<lparr>pm_score = Fin 1, scoreError = Fin 2\<rparr>\<rparr>"
  let ?e1 = "\<lparr>benchmark = ''x'', primaryMetric = \<lparr>pm_score = Fin 5, scoreError = Fin 6\<rparr>\<rparr>"
  let ?e2 = "\<lparr>benchmark = ''c.parseSmall'', primaryMetric = \<lparr>pm_score = Fin 3, scoreError = Fin 4\<rparr>\<rparr>"
  let ?e3 = "\<lparr>benchmark = ''y.z'', primaryMetric = \<lparr>pm_score = Fin 7, scoreError = Fin 8\<rparr>\<rparr>"
  let ?data = "[?e0, ?e1, ?e2, ?e3]"
  have n0: "benchmark_name ?e0 = ''parseSmall''" by (simp add: benchmark_name_def)
  have n2: "benchmark_name ?e2 = ''parseSmall''" by (simp add: benchmark_name_def)
  have n3: "benchmark_name ?e3 = ''z''" by (simp add: benchmark_name_def)
  have h1: "(0::nat) < 2" by simp
  have h2: "2 < length ?data" by simp
  have h3: "benchmark_name (?data ! 0) = benchmark_name (?data ! 2)"
    using n0 n2 by simp
  have h4: "\<forall>l. 2 < l \<and> l < length ?data \<longrightarrow> benchmark_name (?data ! l) \<noteq> benchmark_name (?data ! 2)"
  proof (intro allI impI)
    fix l :: nat
    assume "2 < l \<and> l < length ?data"
    then have "l = 3" by simp
    with n2 n3 show "benchmark_name (?data ! l) \<noteq> benchmark_name (?data ! 2)" by simp
  qed
  note wins = parse_results_later_record_wins [OF h1 h2 h3]
  have a: "map_of (parse_results ?data) (benchmark_name (?data ! 2)) = Some (stored (?data ! 2))"
    by (rule wins [THEN conjunct2, THEN conjunct1, THEN mp, OF h4])
  have b: "length (parse_results ?data) < length ?data"
    by (rule wins [THEN conjunct2, THEN conjunct2, THEN conjunct2, THEN conjunct1])
  from a n2 have a': "map_of (parse_results ?data) ''parseSmall'' = Some \<lparr>score = Fin 3, error = Fin 4\<rparr>"
    by (simp add: stored_def)
  from b have b': "length (parse_results ?data) < 4" by simp
  from h1 h2 n0 n2 a' b' show ?thesis by simp
qed

section \<open>The plain-text comparison\<close>

lemma listed_Nil: "listed [] = {}"
  by (simp add: listed_def)

lemma listed_Cons: "listed ((cat, bs) # cats) = set bs \<union> listed cats"
  by (simp add: listed_def)

lemma py_div_raises_iff: "isl (py_div x y) \<longleftrightarrow> py_eq y (Fin 0)"
  by (cases y; cases x) (simp_all add: py_eq_def)

lemma isl_bind_exn: "isl (bind_exn r f) \<longleftrightarrow> isl r \<or> (\<exists>v. r = Inr v \<and> isl (f v))"
  by (cases r) (simp_all add: bind_exn_def)

lemma pr_bench_raises_iff:
  "isl (pr_bench v2 v3 bench) \<longleftrightarrow>
     (\<exists>m2 m3. map_of v2 bench = Some m2 \<and> map_of v3 bench = Some m3 \<and> py_eq (score m2) (Fin 0))"
  by (auto simp: pr_bench_def isl_bind_exn py_div_raises_iff Let_def split: option.splits)

lemma pr_benchmarks_raises_iff:
  "isl (pr_benchmarks v2 v3 bs) \<longleftrightarrow> (\<exists>b \<in> set bs. isl (pr_bench v2 v3 b))"
proof (induction bs)
  case Nil
  show ?case by simp
next
  case (Cons b bs)
  show ?case
  proof (cases "pr_bench v2 v3 b")
    case (Inl e)
    then show ?thesis by (simp add: bind_exn_def)
  next
    case (Inr l)
    with Cons show ?thesis
      by (cases "pr_benchmarks v2 v3 bs") (simp_all add: bind_exn_def)
  qed
qed

lemma pr_categories_raises_iff:
  "isl (pr_categories v2 v3 cats) \<longleftrightarrow>
     (\<exists>b \<in> listed cats. isl (pr_bench v2 v3 b))"
proof (induction cats)
  case Nil
  show ?case by (simp add: listed_Nil)
next
  case (Cons c cats)
  obtain cat bs where c: "c = (cat, bs)" by (cases c)
  show ?case
  proof (cases "pr_benchmarks v2 v3 (sort bs)")
    case (Inl e)
    then have "isl (pr_benchmarks v2 v3 (sort bs))" by simp
    then have "\<exists>b \<in> set bs. isl (pr_bench v2 v3 b)"
      by (simp add: pr_benchmarks_raises_iff)
    with Inl c show ?thesis by (auto simp: bind_exn_def listed_Cons)
  next
    case (Inr ls)
    then have "\<not> isl (pr_benchmarks v2 v3 (sort bs))" by simp
    then have no: "\<not> (\<exists>b \<in> set bs. isl (pr_bench v2 v3 b))"
      by (simp add: pr_benchmarks_raises_iff)
    from Inr c have "isl (pr_categories v2 v3 (c # cats)) \<longleftrightarrow> isl (pr_categories v2 v3 cats)"
      by (cases "pr_categories v2 v3 cats") (simp_all add: bind_exn_def)
    with Cons no c show ?thesis by (auto simp: listed_Cons)
  qed
qed

lemma listed_update_append:
  "map_of al k = Some v0 \<Longrightarrow>
     listed (AList.update k (v0 @ [x]) al) = insert x (listed al)"
  by (induction al) (auto simp: listed_def split: if_splits)

lemma listed_update_new:
  "map_of al k = None \<Longrightarrow> listed (AList.update k [] al) = listed al"
  by (induction al) (auto simp: listed_def split: if_splits)

lemma listed_categories_step:
  "listed (categories_step cats key) = insert key (listed cats)"
proof (cases "map_of cats (category key)")
  case None
  let ?c1 = "AList.update (category key) [] cats"
  have m: "map_of ?c1 (category key) = Some []" by (simp add: update_conv')
  have "categories_step cats key = AList.update (category key) ([] @ [key]) ?c1"
    using None m by (simp add: categories_step_def Let_def)
  then show ?thesis
    using listed_update_append [OF m, of key] listed_update_new [OF None] by simp
next
  case (Some keys)
  then have "categories_step cats key = AList.update (category key) (keys @ [key]) cats"
    by (simp add: categories_step_def Let_def)
  then show ?thesis using listed_update_append [OF Some, of key] by simp
qed

lemma listed_categories_loop:
  "listed (foldl categories_step acc ks) = listed acc \<union> set ks"
  by (induction ks arbitrary: acc) (simp_all add: listed_categories_step)

lemma listed_build_categories:
  "listed (build_categories v2) = fst ` set v2"
  by (simp add: build_categories_def listed_categories_loop listed_Nil)

lemma pr_main_raises_iff:
  "isl (pr_main v2 v3) \<longleftrightarrow>
     (\<exists>bench m2 m3. map_of v2 bench = Some m2 \<and> map_of v3 bench = Some m3 \<and>
        py_eq (score m2) (Fin 0))"
proof -
  have "isl (pr_main v2 v3) \<longleftrightarrow> (\<exists>b \<in> fst ` set v2. isl (pr_bench v2 v3 b))"
    by (simp only: pr_main_def pr_categories_raises_iff listed_build_categories)
  also have "\<dots> \<longleftrightarrow> (\<exists>bench m2 m3. map_of v2 bench = Some m2 \<and> map_of v3 bench = Some m3 \<and>
        py_eq (score m2) (Fin 0))"
  proof
    assume "\<exists>b \<in> fst ` set v2. isl (pr_bench v2 v3 b)"
    then show "\<exists>bench m2 m3. map_of v2 bench = Some m2 \<and> map_of v3 bench = Some m3 \<and>
        py_eq (score m2) (Fin 0)"
      by (auto simp: pr_bench_raises_iff)
  next
    assume "\<exists>bench m2 m3. map_of v2 bench = Some m2 \<and> map_of v3 bench = Some m3 \<and>
        py_eq (score m2) (Fin 0)"
    then obtain bench m2 m3 where h: "map_of v2 bench = Some m2" "map_of v3 bench = Some m3"
        "py_eq (score m2) (Fin 0)" by blast
    from h(1) have "bench \<in> fst ` set v2"
      by (meson domI dom_map_of_conv_image_fst [THEN equalityD1, THEN subsetD])
    moreover from h have "isl (pr_bench v2 v3 bench)"
      by (simp only: pr_bench_raises_iff) blast
    ultimately show "\<exists>b \<in> fst ` set v2. isl (pr_bench v2 v3 b)" by blast
  qed
  finally show ?thesis .
qed

text \<open>
  C8. On two result sets, the comparison of parse-results.py raises
  \<^verbatim>\<open>ZeroDivisionError\<close> if and only if some benchmark that is in both sets has a
  baseline score equal to 0: every key of the baseline set is filed under one category,
  every category is printed, and the delta is divided by the baseline score with no test.
  For such a benchmark \<^const>\<open>get_diff\<close> of generate-report.py returns positive infinity
  and \<^const>\<open>format_benchmark_row\<close> returns a row with that delta.
\<close>

theorem zero_baseline_paths_diverge:
  "(pr_main v2 v3 = Inl ZeroDivisionError \<longleftrightarrow>
      (\<exists>bench m2 m3. map_of v2 bench = Some m2 \<and> map_of v3 bench = Some m3 \<and>
         py_eq (score m2) (Fin 0))) \<and>
   (map_of v2 bench = Some m2 \<and> map_of v3 bench = Some m3 \<and> py_eq (score m2) (Fin 0) \<longrightarrow>
      get_diff (score m2) (score m3) = Inr PInf \<and>
      format_benchmark_row bench v2 v3 t =
        Inr \<lparr>bench_cell = bench, v2_cell = Some (score m2), v3_cell = Some (score m3),
             diff_cell = Some PInf, status_cell = get_status PInf t\<rparr>)"
proof -
  have "pr_main v2 v3 = Inl ZeroDivisionError \<longleftrightarrow> isl (pr_main v2 v3)"
  proof (cases "pr_main v2 v3")
    case (Inl e)
    then show ?thesis by (cases e) simp
  next
    case (Inr rows)
    then show ?thesis by simp
  qed
  then have raises: "pr_main v2 v3 = Inl ZeroDivisionError \<longleftrightarrow>
      (\<exists>bench m2 m3. map_of v2 bench = Some m2 \<and> map_of v3 bench = Some m3 \<and>
         py_eq (score m2) (Fin 0))"
    by (simp only: pr_main_raises_iff)
  have report: "get_diff (score m2) (score m3) = Inr PInf \<and>
      format_benchmark_row bench v2 v3 t =
        Inr \<lparr>bench_cell = bench, v2_cell = Some (score m2), v3_cell = Some (score m3),
             diff_cell = Some PInf, status_cell = get_status PInf t\<rparr>"
    if "map_of v2 bench = Some m2" "map_of v3 bench = Some m3" "py_eq (score m2) (Fin 0)"
    using that by (simp add: get_diff_def format_benchmark_row_def bind_exn_def Let_def)
  from raises report show ?thesis by blast
qed

theorem zero_baseline_paths_diverge_witness:
  "map_of [(''parseSmall'', \<lparr>score = Fin 0, error = Fin 0\<rparr>)] ''parseSmall''
     = Some \<lparr>score = Fin 0, error = Fin 0\<rparr> \<and>
   map_of [(''parseSmall'', \<lparr>score = Fin 5, error = Fin 0\<rparr>)] ''parseSmall''
     = Some \<lparr>score = Fin 5, error = Fin 0\<rparr> \<and>
   py_eq (Fin 0) (Fin 0) \<and>
   pr_main [(''parseSmall'', \<lparr>score = Fin 0, error = Fin 0\<rparr>)]
           [(''parseSmall'', \<lparr>score = Fin 5, error = Fin 0\<rparr>)] = Inl ZeroDivisionError \<and>
   get_diff (Fin 0) (Fin 5) = Inr PInf \<and>
   format_benchmark_row ''parseSmall'' [(''parseSmall'', \<lparr>score = Fin 0, error = Fin 0\<rparr>)]
           [(''parseSmall'', \<lparr>score = Fin 5, error = Fin 0\<rparr>)] (Fin 20)
     = Inr \<lparr>bench_cell = ''parseSmall'', v2_cell = Some (Fin 0), v3_cell = Some (Fin 5),
            diff_cell = Some PInf, status_cell = ''REGRESSION''\<rparr>"
proof -
  let ?m2 = "\<lparr>score = Fin 0, error = Fin 0\<rparr>"
  let ?m3 = "\<lparr>score = Fin 5, error = Fin 0\<rparr>"
  let ?v2 = "[(''parseSmall'', ?m2)]"
  let ?v3 = "[(''parseSmall'', ?m3)]"
  have h1: "map_of ?v2 ''parseSmall'' = Some ?m2" by simp
  have h2: "map_of ?v3 ''parseSmall'' = Some ?m3" by simp
  have h3: "py_eq (score ?m2) (Fin 0)" by (simp add: py_eq_def)
  note paths = zero_baseline_paths_diverge
    [where ?v2.0 = ?v2 and ?v3.0 = ?v3 and bench = "''parseSmall''" and ?m2.0 = ?m2
       and ?m3.0 = ?m3 and t = "Fin 20"]
  from h1 h2 h3 have ex: "\<exists>bench m2 m3. map_of ?v2 bench = Some m2 \<and>
      map_of ?v3 bench = Some m3 \<and> py_eq (score m2) (Fin 0)" by blast
  have a: "pr_main ?v2 ?v3 = Inl ZeroDivisionError"
    by (rule paths [THEN conjunct1, THEN iffD2, OF ex])
  have b: "get_diff (score ?m2) (score ?m3) = Inr PInf \<and>
      format_benchmark_row ''parseSmall'' ?v2 ?v3 (Fin 20) =
        Inr \<lparr>bench_cell = ''parseSmall'', v2_cell = Some (score ?m2), v3_cell = Some (score ?m3),
             diff_cell = Some PInf, status_cell = get_status PInf (Fin 20)\<rparr>"
    using paths [THEN conjunct2] h1 h2 h3 by blast
  have c: "get_status PInf (Fin 20) = ''REGRESSION''" by (simp add: get_status_def)
  from h1 h2 h3 a b c show ?thesis by simp
qed


end
